theory Spec2Isabelle
  imports
    Complex_Main
    "HOL-Library.Sublist"
    "HOL-Library.Multiset"
    "HOL-Library.Char_ord"
    "HOL-Library.List_Lexorder"
    "HOL-Library.Log_Nat"
begin

section \<open>The AppPulse dashboard: data model\<close>

text \<open>
  \<^verbatim>\<open>dashboard.py\<close> is one script that runs top to bottom on every interaction.  It
  loads a table with \<^verbatim>\<open>pd.read_csv\<close>, narrows it with four sidebar controls and
  computes its metrics, charts and tables from the narrowed table \<^verbatim>\<open>df_filtered\<close>.

  A numeric column of the table is a \<^verbatim>\<open>float64\<close> column: a cell is a number or the
  missing value NaN.  A finite cell is the real number that the \<^verbatim>\<open>float64\<close> denotes.
  A text column holds a string or is missing.
\<close>

datatype float64 = NaN | Val real

subsection \<open>Rounding\<close>

text \<open>
  The nearest integer, ties to the even one: the rounding of \<^verbatim>\<open>float64\<close> arithmetic, of
  Python's format specifications and of \<^verbatim>\<open>round\<close> in NumPy.
\<close>

definition round_half_even :: "real \<Rightarrow> int" where
  "round_half_even x =
     (let f = \<lfloor>x\<rfloor>; d = x - of_int f
      in if d < 1 / 2 then f else if 1 / 2 < d then f + 1 else if even f then f else f + 1)"

text \<open>
  The binary exponent of a positive number \<open>x\<close>: the integer \<open>e\<close> with
  \<open>2 powi e \<le> x\<close> and \<open>x < 2 powi (e + 1)\<close>, found from the number of binary digits
  of the integer part of \<open>x\<close> or of \<open>1 / x\<close>.
\<close>

definition exponent2 :: "real \<Rightarrow> int" where
  "exponent2 x =
     (if 1 \<le> x then int (floorlog 2 (nat \<lfloor>x\<rfloor>)) - 1
      else - int (floorlog 2 (nat (\<lceil>1 / x\<rceil> - 1))))"

text \<open>
  The \<^verbatim>\<open>float64\<close> nearest to a real number: 53 significant binary digits, ties to the
  even significand.  The range of the exponent is not bounded here; the quotients, products
  and sums below stay far from overflow and underflow.
\<close>

definition f64_round :: "real \<Rightarrow> real" where
  "f64_round x =
     (if x = 0 then 0
      else let e = exponent2 \<bar>x\<bar> - 52;
               m = round_half_even (\<bar>x\<bar> / 2 powi e)
           in sgn x * real_of_int m * 2 powi e)"

record app_record =
  App :: "string option"
  Category :: "string option"
  Type :: "string option"
  Rating :: float64
  Reviews :: float64
  Installs_Clean :: float64
  Price_Clean :: float64
  Size_MB :: float64
  sentiment_polarity_mean :: float64
  positive_percentage :: float64
  negative_percentage :: float64

type_synonym dataframe = "app_record list"

text \<open>The four sidebar controls (lines 127 to 139).\<close>

record controls =
  selected_category :: string
  selected_type :: string
  min_rating :: real
  min_reviews :: int

subsection \<open>Comparisons and reductions of a column\<close>

text \<open>\<^verbatim>\<open>column >= threshold\<close>: a comparison with NaN is false.\<close>

fun ge_f64 :: "float64 \<Rightarrow> real \<Rightarrow> bool" where
  "ge_f64 NaN t = False"
| "ge_f64 (Val v) t = (t \<le> v)"

text \<open>The cells of a column that are present (\<^verbatim>\<open>skipna=True\<close>, the default).\<close>

fun dropna :: "float64 list \<Rightarrow> real list" where
  "dropna [] = []"
| "dropna (NaN # xs) = dropna xs"
| "dropna (Val v # xs) = v # dropna xs"

text \<open>A missing cell replaced by a number (\<^verbatim>\<open>fillna\<close>).\<close>

fun fillna :: "real \<Rightarrow> float64 \<Rightarrow> real" where
  "fillna d NaN = d"
| "fillna d (Val v) = v"

text \<open>
  Numbers added to a running sum one after the other, every addition rounded
  (\<^verbatim>\<open>for (i = 0; i < n; i++) res += a[i]\<close>).
\<close>

definition add_all :: "real \<Rightarrow> real list \<Rightarrow> real" where
  "add_all res a = foldl (\<lambda>acc v. f64_round (acc + v)) res a"

text \<open>
  The sum of a column in NumPy (\<^verbatim>\<open>DOUBLE_pairwise_sum\<close>).  Fewer than 8 numbers are
  added one after the other from 0.  Up to 128 numbers are added in eight running sums,
  the \<open>j\<close>-th of them taking the \<open>j\<close>-th number of every full block of eight; the eight
  sums are added in pairs, and the numbers after the last full block are added to the
  result one after the other.  More numbers are split at a multiple of eight near the
  middle, and the sums of the two parts are added.
\<close>

definition block_sum :: "real list \<Rightarrow> real" where
  "block_sum a =
     (let n = length a;
          r = foldl (\<lambda>r i. map2 (\<lambda>x y. f64_round (x + y)) r (take 8 (drop (8 * i) a)))
                (take 8 a) [1..<n div 8];
          res = f64_round
                  (f64_round (f64_round (r ! 0 + r ! 1) + f64_round (r ! 2 + r ! 3)) +
                   f64_round (f64_round (r ! 4 + r ! 5) + f64_round (r ! 6 + r ! 7)))
      in add_all res (drop (n - n mod 8) a))"

definition half8 :: "nat \<Rightarrow> nat" where
  "half8 n = n div 2 - (n div 2) mod 8"

function pairwise_sum :: "real list \<Rightarrow> real" where
  "pairwise_sum a =
     (if length a < 8 then add_all 0 a
      else if length a \<le> 128 then block_sum a
      else f64_round (pairwise_sum (take (half8 (length a)) a) +
                      pairwise_sum (drop (half8 (length a)) a)))"
  by pat_completeness auto
termination
  by (relation "measure length") (auto simp: half8_def)

declare pairwise_sum.simps [simp del]

text \<open>
  \<^verbatim>\<open>Series.sum()\<close>: pandas puts 0 in the place of every missing cell and has NumPy add
  the column; the sum of a column with no cell present is 0.
\<close>

definition series_sum :: "float64 list \<Rightarrow> float64" where
  "series_sum xs = Val (pairwise_sum (map (fillna 0) xs))"

text \<open>
  \<^verbatim>\<open>Series.mean()\<close>: that sum divided by the number of the present cells, NaN when
  there is none.  (With the optional package bottleneck installed, pandas has it compute
  the mean, which adds the present cells one after the other.)
\<close>

definition series_mean :: "float64 list \<Rightarrow> float64" where
  "series_mean xs =
     (let vs = dropna xs
      in if vs = [] then NaN
         else Val (f64_round (pairwise_sum (map (fillna 0) xs) / real (length vs))))"

section \<open>The filter (lines 142 to 151)\<close>

text \<open>
  \<^verbatim>\<open>
  df_filtered = df.copy()
  if selected_category != 'All Categories':
      df_filtered = df_filtered[df_filtered['Category'] == selected_category]
  if selected_type != 'All Types':
      df_filtered = df_filtered[df_filtered['Type'] == selected_type]
  df_filtered = df_filtered[df_filtered['Rating'] >= min_rating]
  df_filtered = df_filtered[df_filtered['Reviews'] >= min_reviews]
  \<close>
  Indexing with a boolean mask keeps the rows whose mask is true, in their order.
\<close>

definition df_filtered :: "dataframe \<Rightarrow> controls \<Rightarrow> dataframe" where
  "df_filtered df c =
     (let d0 = df;
          d1 = (if selected_category c \<noteq> ''All Categories''
                then filter (\<lambda>r. Category r = Some (selected_category c)) d0 else d0);
          d2 = (if selected_type c \<noteq> ''All Types''
                then filter (\<lambda>r. Type r = Some (selected_type c)) d1 else d1);
          d3 = filter (\<lambda>r. ge_f64 (Rating r) (min_rating c)) d2;
          d4 = filter (\<lambda>r. ge_f64 (Reviews r) (real_of_int (min_reviews c))) d3
      in d4)"

text \<open>The four masks as one predicate on a row, used in the proofs below.\<close>

definition keeps :: "controls \<Rightarrow> app_record \<Rightarrow> bool" where
  "keeps c r =
     ((selected_category c = ''All Categories'' \<or> Category r = Some (selected_category c)) \<and>
      (selected_type c = ''All Types'' \<or> Type r = Some (selected_type c)) \<and>
      ge_f64 (Rating r) (min_rating c) \<and>
      ge_f64 (Reviews r) (real_of_int (min_reviews c)))"

text \<open>The three rows of the spec's example, and a row with every cell missing.\<close>

definition blank :: app_record where
  "blank = \<lparr>App = None, Category = None, Type = None, Rating = NaN, Reviews = NaN,
     Installs_Clean = NaN, Price_Clean = NaN, Size_MB = NaN, sentiment_polarity_mean = NaN,
     positive_percentage = NaN, negative_percentage = NaN\<rparr>"

definition row_a1 :: app_record where
  "row_a1 = blank\<lparr>App := Some ''Alpha'', Category := Some ''CatA'', Type := Some ''Free'',
     Rating := Val (9 / 2), Reviews := Val 500\<rparr>"

definition row_a2 :: app_record where
  "row_a2 = blank\<lparr>App := Some ''Beta'', Category := Some ''CatA'', Type := Some ''Paid'',
     Rating := Val 3, Reviews := Val 50\<rparr>"

definition row_b1 :: app_record where
  "row_b1 = blank\<lparr>App := Some ''Gamma'', Category := Some ''CatB'', Type := Some ''Free'',
     Rating := Val 4, Reviews := Val 2000\<rparr>"

definition example_df :: dataframe where
  "example_df = [row_a1, row_a2, row_b1]"

definition all_controls :: controls where
  "all_controls = \<lparr>selected_category = ''All Categories'', selected_type = ''All Types'',
     min_rating = 0, min_reviews = 0\<rparr>"

section \<open>Key metrics (lines 170 to 199)\<close>

subsection \<open>Format specifications\<close>

text \<open>
  \<^verbatim>\<open>f"{x:.2f}"\<close>, \<^verbatim>\<open>f"{x:+.2f}"\<close> and \<^verbatim>\<open>f"{x:.1f}"\<close>: fixed-point text with
  a given number of decimals, the last digit rounded to nearest with ties to even; a sign
  for negative numbers, and for all numbers with \<^verbatim>\<open>+\<close>.  NaN is formatted as the text
  \<^verbatim>\<open>nan\<close> and no exception is raised.
\<close>

fun digits10 :: "nat \<Rightarrow> string" where
  "digits10 n =
     (if n < 10 then [''0123456789'' ! n]
      else digits10 (n div 10) @ [''0123456789'' ! (n mod 10)])"

declare digits10.simps [simp del]

definition zero_pad :: "nat \<Rightarrow> string \<Rightarrow> string" where
  "zero_pad w s = replicate (w - length s) CHR ''0'' @ s"

definition format_f :: "bool \<Rightarrow> nat \<Rightarrow> float64 \<Rightarrow> string" where
  "format_f show_plus prec x =
     (case x of
        NaN \<Rightarrow> (if show_plus then ''+'' else '''') @ ''nan''
      | Val v \<Rightarrow>
          (let n = nat (round_half_even (\<bar>v\<bar> * 10 ^ prec));
               whole = n div 10 ^ prec;
               frac = n mod 10 ^ prec
           in (if v < 0 then ''-'' else if show_plus then ''+'' else '''') @ digits10 whole @
              (if prec = 0 then '''' else ''.'' @ zero_pad prec (digits10 frac))))"

subsection \<open>Arithmetic of \<^verbatim>\<open>float64\<close>\<close>

text \<open>
  An operation on two numbers gives the \<^verbatim>\<open>float64\<close> nearest to the exact result; an
  operation on NaN gives NaN.
\<close>

fun sub_f64 :: "float64 \<Rightarrow> float64 \<Rightarrow> float64" where
  "sub_f64 (Val a) (Val b) = Val (f64_round (a - b))"
| "sub_f64 _ _ = NaN"

fun mul_f64 :: "float64 \<Rightarrow> float64 \<Rightarrow> float64" where
  "mul_f64 (Val a) (Val b) = Val (f64_round (a * b))"
| "mul_f64 _ _ = NaN"

fun add_f64 :: "float64 \<Rightarrow> float64 \<Rightarrow> float64" where
  "add_f64 (Val a) (Val b) = Val (f64_round (a + b))"
| "add_f64 _ _ = NaN"

text \<open>
  The quotient of a NumPy integer by an integer, where the first is a count of rows of a
  table and the second the number of its rows: both become \<^verbatim>\<open>float64\<close>, without
  error for a table of fewer than \<open>2 ^ 53\<close> rows, and are divided.  NumPy's division of
  0 by 0 is NaN, with a warning and no exception.
\<close>

definition true_divide :: "nat \<Rightarrow> nat \<Rightarrow> float64" where
  "true_divide k n = (if n = 0 then NaN else Val (f64_round (real k / real n)))"

subsection \<open>The metrics\<close>

text \<open>What \<^verbatim>\<open>st.metric(label=..., value=..., delta=...)\<close> is given.\<close>

record metric =
  m_label :: string
  m_value :: string
  m_delta :: "string option"

text \<open>
  \<^verbatim>\<open>
  avg_rating = df_filtered['Rating'].mean()
  st.metric(label="Average Rating", value=f"{avg_rating:.2f} ",
      delta=f"{avg_rating - df['Rating'].mean():+.2f}" if len(df_filtered) < len(df) else None)
  \<close>
\<close>

definition avg_rating :: "dataframe \<Rightarrow> float64" where
  "avg_rating fv = series_mean (map Rating fv)"

definition avg_rating_metric :: "dataframe \<Rightarrow> dataframe \<Rightarrow> metric" where
  "avg_rating_metric df fv =
     \<lparr>m_label = ''Average Rating'',
      m_value = format_f False 2 (avg_rating fv) @ '' '',
      m_delta = (if length fv < length df
                 then Some (format_f True 2 (sub_f64 (avg_rating fv) (series_mean (map Rating df))))
                 else None)\<rparr>"

text \<open>
  \<^verbatim>\<open>
  free_percentage = (df_filtered['Type'] == 'Free').sum() / len(df_filtered) * 100
  st.metric(label="Free Apps", value=f"{free_percentage:.1f}%")
  \<close>
\<close>

definition free_percentage :: "dataframe \<Rightarrow> float64" where
  "free_percentage fv =
     mul_f64 (true_divide (length (filter (\<lambda>r. Type r = Some ''Free'') fv)) (length fv))
       (Val 100)"

definition free_apps_metric :: "dataframe \<Rightarrow> metric" where
  "free_apps_metric fv =
     \<lparr>m_label = ''Free Apps'',
      m_value = format_f False 1 (free_percentage fv) @ ''%'',
      m_delta = None\<rparr>"

text \<open>
  Modelled from the spec: \<^verbatim>\<open>paidPercentage\<close>, which the script does not compute.  The
  spec defines it like \<^verbatim>\<open>freePercentage\<close>, with the type Paid in place of Free; it
  is computed here as the script computes \<^verbatim>\<open>free_percentage\<close>.
\<close>

definition paid_percentage :: "dataframe \<Rightarrow> float64" where
  "paid_percentage fv =
     mul_f64 (true_divide (length (filter (\<lambda>r. Type r = Some ''Paid'') fv)) (length fv))
       (Val 100)"

section \<open>Category summary (lines 261 to 269)\<close>

text \<open>
  \<^verbatim>\<open>
  category_summary = df_filtered.groupby('Category').agg({
      'App': 'count', 'Rating': 'mean', 'Reviews': 'sum', 'Installs_Clean': 'sum'
  }).round(2)
  category_summary.columns = ['App Count', 'Avg Rating', 'Total Reviews', 'Total Installs']
  category_summary = category_summary.sort_values('App Count', ascending=False)
  \<close>
  \<^verbatim>\<open>groupby\<close> makes one group for each category that occurs, in ascending order of the
  category; a row whose category is missing belongs to no group.  \<^verbatim>\<open>count\<close> counts the
  cells of the group that are present, \<^verbatim>\<open>mean\<close> and \<^verbatim>\<open>sum\<close> skip NaN.
\<close>

record summary_row =
  category :: string
  app_count :: nat
  avg_rating_col :: float64
  total_reviews_col :: float64
  total_installs_col :: float64

definition group_keys :: "dataframe \<Rightarrow> string list" where
  "group_keys fv = sort (remdups (List.map_filter Category fv))"

definition group_rows :: "string \<Rightarrow> dataframe \<Rightarrow> dataframe" where
  "group_rows k fv = filter (\<lambda>r. Category r = Some k) fv"

definition count_notna :: "'a option list \<Rightarrow> nat" where
  "count_notna xs = length (filter (\<lambda>x. x \<noteq> None) xs)"

text \<open>
  \<^verbatim>\<open>.round(2)\<close> on a float column: NumPy multiplies by 100, rounds to the nearest
  integer, ties to even, and divides by 100; NaN stays NaN.  The count column is an integer
  column, which \<^verbatim>\<open>round\<close> leaves as it is.
\<close>

fun round2 :: "float64 \<Rightarrow> float64" where
  "round2 NaN = NaN"
| "round2 (Val v) =
     Val (f64_round (real_of_int (round_half_even (f64_round (v * 100))) / 100))"

text \<open>
  The sum and the mean of a group (\<^verbatim>\<open>group_sum\<close> and \<^verbatim>\<open>group_mean\<close> of pandas) add
  the present cells of the group one after the other and carry the rounding error of each
  addition as a correction to the next cell.  The sum of a group with no cell present is
  0, its mean is NaN.
  \<^verbatim>\<open>
  y = val - compensation
  t = sumx + y
  compensation = t - sumx - y
  sumx = t
  \<close>
\<close>

fun kahan_step :: "real \<times> real \<Rightarrow> real \<Rightarrow> real \<times> real" where
  "kahan_step (sumx, compensation) val =
     (let y = f64_round (val - compensation);
          t = f64_round (sumx + y)
      in (t, f64_round (f64_round (t - sumx) - y)))"

definition kahan_sum :: "real list \<Rightarrow> real" where
  "kahan_sum vs = fst (foldl kahan_step (0, 0) vs)"

definition group_sum :: "float64 list \<Rightarrow> float64" where
  "group_sum xs = Val (kahan_sum (dropna xs))"

definition group_mean :: "float64 list \<Rightarrow> float64" where
  "group_mean xs =
     (let vs = dropna xs
      in if vs = [] then NaN
         else Val (f64_round (kahan_sum vs / real (length vs))))"

definition summarize :: "string \<Rightarrow> dataframe \<Rightarrow> summary_row" where
  "summarize k g =
     \<lparr>category = k,
      app_count = count_notna (map App g),
      avg_rating_col = round2 (group_mean (map Rating g)),
      total_reviews_col = round2 (group_sum (map Reviews g)),
      total_installs_col = round2 (group_sum (map Installs_Clean g))\<rparr>"

text \<open>
  \<^verbatim>\<open>sort_values('App Count', ascending=False)\<close>.  The order pandas gives to rows of equal
  count depends on its sorting algorithm; here they stay in the order of their categories.
\<close>

definition category_summary :: "dataframe \<Rightarrow> summary_row list" where
  "category_summary fv =
     sort_key (\<lambda>s. - int (app_count s)) (map (\<lambda>k. summarize k (group_rows k fv)) (group_keys fv))"

section \<open>The scatter sample (line 314)\<close>

text \<open>
  \<^verbatim>\<open>sample_df = df_filtered.sample(min(1000, len(df_filtered)))\<close>.
  \<^verbatim>\<open>DataFrame.sample(n)\<close> with no \<^verbatim>\<open>random_state\<close> asks NumPy's global random
  generator for \<open>n\<close> positions without replacement, which NumPy takes as the first \<open>n\<close>
  entries of a random permutation of all positions, and returns the rows at these
  positions in that order.  The permutation is the part of the generator's state that
  the result depends on; it is an argument here.
\<close>

definition valid_draw :: "nat \<Rightarrow> nat list \<Rightarrow> bool" where
  "valid_draw n perm = (mset perm = mset [0..<n])"

definition sample :: "nat \<Rightarrow> nat list \<Rightarrow> 'a list \<Rightarrow> 'a list" where
  "sample n perm df = map (\<lambda>i. df ! i) (take n perm)"

definition sample_df :: "nat list \<Rightarrow> dataframe \<Rightarrow> dataframe" where
  "sample_df perm fv = sample (min 1000 (length fv)) perm fv"

section \<open>Price and size buckets (lines 444 to 465)\<close>

text \<open>
  \<^verbatim>\<open>
  price_rating = df_filtered.groupby(pd.cut(df_filtered['Price_Clean'],
                     bins=[0, 0.01, 2, 5, 10, 100]))['Rating'].mean()
  fig = px.bar(x=['Free', '$0-2', '$2-5', '$5-10', '$10+'], y=price_rating.values, ...)
  \<close>
  \<^verbatim>\<open>pd.cut\<close> with its defaults (\<^verbatim>\<open>right=True\<close>, \<^verbatim>\<open>include_lowest=False\<close>) finds the
  position of a value among the sorted edges by binary search from the left, the number of
  edges below the value; position 0 and the position past the last edge have no interval,
  and neither has NaN.  The grouped mean has one entry for each interval, in the order of
  the intervals, NaN for an interval with no row; the chart pairs the entries with its five
  labels by position.
\<close>

definition searchsorted_left :: "real list \<Rightarrow> real \<Rightarrow> nat" where
  "searchsorted_left bins x = length (takeWhile (\<lambda>b. b < x) bins)"

fun pd_cut :: "real list \<Rightarrow> float64 \<Rightarrow> nat option" where
  "pd_cut bins NaN = None"
| "pd_cut bins (Val x) =
     (let ids = searchsorted_left bins x
      in if ids = 0 \<or> ids = length bins then None else Some (ids - 1))"

definition bucket_means :: "real list \<Rightarrow> (app_record \<Rightarrow> float64) \<Rightarrow> dataframe \<Rightarrow> float64 list" where
  "bucket_means bins col fv =
     map (\<lambda>i. group_mean (map Rating (filter (\<lambda>r. pd_cut bins (col r) = Some i) fv)))
       [0..<length bins - 1]"

text \<open>
  The edges are \<^verbatim>\<open>float64\<close> numbers.  The literal \<^verbatim>\<open>0.01\<close> is the one nearest to
  1/100, which is a little above 1/100; the other edges are integers.
\<close>

definition price_bins :: "real list" where
  "price_bins = [0, f64_round (1 / 100), 2, 5, 10, 100]"

definition price_rating :: "dataframe \<Rightarrow> float64 list" where
  "price_rating fv = bucket_means price_bins Price_Clean fv"

definition price_chart :: "dataframe \<Rightarrow> (string \<times> float64) list" where
  "price_chart fv = zip [''Free'', ''$0-2'', ''$2-5'', ''$5-10'', ''$10+''] (price_rating fv)"

definition size_bins :: "real list" where
  "size_bins = [0, 10, 50, 100, 500]"

definition size_rating :: "dataframe \<Rightarrow> float64 list" where
  "size_rating fv = bucket_means size_bins Size_MB fv"

text \<open>A price lies in the interval that is open at \<open>lo\<close> and closed at \<open>hi\<close>.\<close>

fun in_left_open :: "real \<Rightarrow> real \<Rightarrow> float64 \<Rightarrow> bool" where
  "in_left_open lo hi NaN = False"
| "in_left_open lo hi (Val x) = (lo < x \<and> x \<le> hi)"

section \<open>The other aggregations\<close>

subsection \<open>Total apps and total installs (lines 172 to 192)\<close>

text \<open>
  \<^verbatim>\<open>
  st.metric(label="Total Apps", value=f"{len(df_filtered):,}",
      delta=f"{len(df_filtered) - len(df)}" if selected_category != 'All Categories' else None)
  total_installs = df_filtered['Installs_Clean'].sum()
  st.metric(label="Total Installs",
      value=f"{total_installs/1e9:.1f}B" if total_installs > 1e9 else f"{total_installs/1e6:.0f}M")
  \<close>
\<close>

fun commas :: "string \<Rightarrow> string" where
  "commas (a # b # c # d # ds) = a # b # c # CHR '','' # commas (d # ds)"
| "commas ds = ds"

text \<open>\<^verbatim>\<open>f"{n:,}"\<close> for a count: the digits in groups of three from the right.\<close>

definition format_thousands :: "nat \<Rightarrow> string" where
  "format_thousands n = rev (commas (rev (digits10 n)))"

text \<open>\<^verbatim>\<open>f"{i}"\<close> for an integer.\<close>

definition format_int :: "int \<Rightarrow> string" where
  "format_int i = (if i < 0 then ''-'' else '''') @ digits10 (nat \<bar>i\<bar>)"

fun gt_f64 :: "float64 \<Rightarrow> real \<Rightarrow> bool" where
  "gt_f64 NaN t = False"
| "gt_f64 (Val v) t = (t < v)"

text \<open>
  The quotient of a \<^verbatim>\<open>float64\<close> by a constant that is not 0 (the constants are
  \<^verbatim>\<open>1e9\<close> and \<^verbatim>\<open>1e6\<close>).
\<close>

fun div_const :: "float64 \<Rightarrow> real \<Rightarrow> float64" where
  "div_const NaN d = NaN"
| "div_const (Val a) d = Val (f64_round (a / d))"

definition total_apps_metric :: "dataframe \<Rightarrow> controls \<Rightarrow> dataframe \<Rightarrow> metric" where
  "total_apps_metric df c fv =
     \<lparr>m_label = ''Total Apps'',
      m_value = format_thousands (length fv),
      m_delta = (if selected_category c \<noteq> ''All Categories''
                 then Some (format_int (int (length fv) - int (length df)))
                 else None)\<rparr>"

definition total_installs :: "dataframe \<Rightarrow> float64" where
  "total_installs fv = series_sum (map Installs_Clean fv)"

definition total_installs_metric :: "dataframe \<Rightarrow> metric" where
  "total_installs_metric fv =
     \<lparr>m_label = ''Total Installs'',
      m_value = (if gt_f64 (total_installs fv) 1000000000
                 then format_f False 1 (div_const (total_installs fv) 1000000000) @ ''B''
                 else format_f False 0 (div_const (total_installs fv) 1000000) @ ''M''),
      m_delta = None\<rparr>"

subsection \<open>Category charts (lines 215 and 238)\<close>

text \<open>
  \<^verbatim>\<open>category_counts = df_filtered['Category'].value_counts().head(10)\<close>:
  the categories that occur, each with the number of its rows, in descending order of
  that number, and the first ten of them.
  \<^verbatim>\<open>category_ratings = df_filtered.groupby('Category')['Rating'].mean().sort_values(ascending=False).head(10)\<close>:
  the mean rating of each category, in descending order with NaN last, and the first ten.
  As in the category summary, entries of equal rank are kept in the order they had before
  sorting, which pandas does not promise.
\<close>

fun the_val :: "float64 \<Rightarrow> real" where
  "the_val (Val v) = v"
| "the_val NaN = 0"

definition sort_desc_nan_last :: "('a \<Rightarrow> float64) \<Rightarrow> 'a list \<Rightarrow> 'a list" where
  "sort_desc_nan_last key xs =
     sort_key (\<lambda>x. - the_val (key x)) (filter (\<lambda>x. key x \<noteq> NaN) xs) @
     filter (\<lambda>x. key x = NaN) xs"

definition value_counts :: "string option list \<Rightarrow> (string \<times> nat) list" where
  "value_counts xs =
     (let keys = rev (remdups (rev (List.map_filter id xs)))
      in sort_key (\<lambda>(k, n). - int n) (map (\<lambda>k. (k, length (filter (\<lambda>x. x = Some k) xs))) keys))"

definition category_counts :: "dataframe \<Rightarrow> (string \<times> nat) list" where
  "category_counts fv = take 10 (value_counts (map Category fv))"

definition category_ratings :: "dataframe \<Rightarrow> (string \<times> float64) list" where
  "category_ratings fv =
     take 10 (sort_desc_nan_last snd
       (map (\<lambda>k. (k, group_mean (map Rating (group_rows k fv)))) (group_keys fv)))"

subsection \<open>Sentiment (lines 346 to 376)\<close>

text \<open>
  \<^verbatim>\<open>
  avg_polarity = df_filtered['sentiment_polarity_mean'].mean()
  st.metric(label="Average Sentiment", value=f"{avg_polarity:.2f}",
      delta="Positive" if avg_polarity > 0 else "Negative")
  avg_positive = df_filtered['positive_percentage'].mean()
  st.metric(label="Positive Reviews", value=f"{avg_positive:.1f}%")
  avg_negative = df_filtered['negative_percentage'].mean()
  st.metric(label="Negative Reviews", value=f"{avg_negative:.1f}%")
  sentiment_by_category = df_filtered.groupby('Category').agg({
      'positive_percentage': 'mean', 'negative_percentage': 'mean'}).reset_index()
  sentiment_by_category = sentiment_by_category.sort_values('positive_percentage',
      ascending=False).head(10)
  \<close>
\<close>

definition avg_polarity_metric :: "dataframe \<Rightarrow> metric" where
  "avg_polarity_metric fv =
     (let avg_polarity = series_mean (map sentiment_polarity_mean fv)
      in \<lparr>m_label = ''Average Sentiment'',
          m_value = format_f False 2 avg_polarity,
          m_delta = Some (if gt_f64 avg_polarity 0 then ''Positive'' else ''Negative'')\<rparr>)"

definition avg_positive_metric :: "dataframe \<Rightarrow> metric" where
  "avg_positive_metric fv =
     \<lparr>m_label = ''Positive Reviews'',
      m_value = format_f False 1 (series_mean (map positive_percentage fv)) @ ''%'',
      m_delta = None\<rparr>"

definition avg_negative_metric :: "dataframe \<Rightarrow> metric" where
  "avg_negative_metric fv =
     \<lparr>m_label = ''Negative Reviews'',
      m_value = format_f False 1 (series_mean (map negative_percentage fv)) @ ''%'',
      m_delta = None\<rparr>"

definition sentiment_by_category :: "dataframe \<Rightarrow> (string \<times> float64 \<times> float64) list" where
  "sentiment_by_category fv =
     take 10 (sort_desc_nan_last (\<lambda>(k, pos, neg). pos)
       (map (\<lambda>k. (k, group_mean (map positive_percentage (group_rows k fv)),
                      group_mean (map negative_percentage (group_rows k fv))))
          (group_keys fv)))"

subsection \<open>Top performing apps (lines 416 to 429)\<close>

text \<open>
  \<^verbatim>\<open>df_filtered.nlargest(10, col)\<close>: the rows in descending order of the column, rows of
  equal value in the order of the table, rows with a missing value last, and the first ten
  of them.  Each table shows five columns.
  \<^verbatim>\<open>
  top_rated = df_filtered.nlargest(10, 'Rating')[['App', 'Category', 'Rating', 'Reviews', 'Type']]
  top_installs = df_filtered.nlargest(10, 'Installs_Clean')[['App', 'Category', 'Rating', 'Installs_Clean', 'Type']]
  top_reviews = df_filtered.nlargest(10, 'Reviews')[['App', 'Category', 'Rating', 'Reviews', 'Type']]
  \<close>
\<close>

definition nlargest :: "nat \<Rightarrow> (app_record \<Rightarrow> float64) \<Rightarrow> dataframe \<Rightarrow> dataframe" where
  "nlargest n col fv = take n (sort_desc_nan_last col fv)"

type_synonym top_row = "string option \<times> string option \<times> float64 \<times> float64 \<times> string option"

definition top_rated :: "dataframe \<Rightarrow> top_row list" where
  "top_rated fv =
     map (\<lambda>r. (App r, Category r, Rating r, Reviews r, Type r)) (nlargest 10 Rating fv)"

definition top_installs :: "dataframe \<Rightarrow> top_row list" where
  "top_installs fv =
     map (\<lambda>r. (App r, Category r, Rating r, Installs_Clean r, Type r))
       (nlargest 10 Installs_Clean fv)"

definition top_reviews :: "dataframe \<Rightarrow> top_row list" where
  "top_reviews fv =
     map (\<lambda>r. (App r, Category r, Rating r, Reviews r, Type r)) (nlargest 10 Reviews fv)"

section \<open>One pass of the script\<close>

text \<open>
  The script has one hidden input, the state of NumPy's random generator, which only the
  scatter sample reads.  The record collects what one pass computes from the dataset, the
  controls and the permutation that the generator draws.  The charting calls between the
  computations are not modelled; a pass that a chart aborts computes the entries up to
  that chart.
\<close>

record outputs =
  o_df_filtered :: dataframe
  o_total_apps :: metric
  o_avg_rating :: metric
  o_total_installs :: metric
  o_free_apps :: metric
  o_category_counts :: "(string \<times> nat) list"
  o_category_ratings :: "(string \<times> float64) list"
  o_category_summary :: "summary_row list"
  o_sample_df :: dataframe
  o_avg_polarity :: metric
  o_avg_positive :: metric
  o_avg_negative :: metric
  o_sentiment_by_category :: "(string \<times> float64 \<times> float64) list"
  o_top_rated :: "top_row list"
  o_top_installs :: "top_row list"
  o_top_reviews :: "top_row list"
  o_price_rating :: "float64 list"
  o_size_rating :: "float64 list"

definition dashboard :: "nat list \<Rightarrow> dataframe \<Rightarrow> controls \<Rightarrow> outputs" where
  "dashboard perm df c =
     (let fv = df_filtered df c
      in \<lparr>o_df_filtered = fv,
          o_total_apps = total_apps_metric df c fv,
          o_avg_rating = avg_rating_metric df fv,
          o_total_installs = total_installs_metric fv,
          o_free_apps = free_apps_metric fv,
          o_category_counts = category_counts fv,
          o_category_ratings = category_ratings fv,
          o_category_summary = category_summary fv,
          o_sample_df = sample_df perm fv,
          o_avg_polarity = avg_polarity_metric fv,
          o_avg_positive = avg_positive_metric fv,
          o_avg_negative = avg_negative_metric fv,
          o_sentiment_by_category = sentiment_by_category fv,
          o_top_rated = top_rated fv,
          o_top_installs = top_installs fv,
          o_top_reviews = top_reviews fv,
          o_price_rating = price_rating fv,
          o_size_rating = size_rating fv\<rparr>)"

section \<open>Search (lines 521 to 524)\<close>















subsection \<open>What the search is compared with\<close>



section \<open>A dataset with every cell present\<close>

text \<open>
  Three apps with all their cells, for which a pass of the script reaches its last line.
  The price of the second is the \<^verbatim>\<open>float64\<close> that the text \<^verbatim>\<open>0.01\<close> denotes.
\<close>

definition app_notes :: app_record where
  "app_notes = \<lparr>App = Some ''Alpha Notes'', Category = Some ''TOOLS'', Type = Some ''Free'',
     Rating = Val (9 / 2), Reviews = Val 500, Installs_Clean = Val 10000, Price_Clean = Val 0,
     Size_MB = Val 12, sentiment_polarity_mean = Val (1 / 4), positive_percentage = Val 75,
     negative_percentage = Val 25\<rparr>"

definition app_abc :: app_record where
  "app_abc = \<lparr>App = Some ''abc'', Category = Some ''GAME'', Type = Some ''Paid'',
     Rating = Val 3, Reviews = Val 50, Installs_Clean = Val 1000,
     Price_Clean = Val (f64_round (1 / 100)),
     Size_MB = Val 25, sentiment_polarity_mean = Val (1 / 8), positive_percentage = Val 50,
     negative_percentage = Val 50\<rparr>"

definition app_pro :: app_record where
  "app_pro = \<lparr>App = Some ''Gamma Pro'', Category = Some ''GAME'', Type = Some ''Paid'',
     Rating = Val 4, Reviews = Val 2000, Installs_Clean = Val 5000, Price_Clean = Val 150,
     Size_MB = Val 55, sentiment_polarity_mean = Val (1 / 2), positive_percentage = Val 80,
     negative_percentage = Val 20\<rparr>"

definition full_df :: dataframe where
  "full_df = [app_notes, app_abc, app_pro]"

section \<open>Properties of the filter\<close>

lemma df_filtered_keeps: "df_filtered df c = filter (keeps c) df"
  by (auto simp: df_filtered_def keeps_def Let_def intro: filter_cong)

lemma filter_length_mono:
  assumes "\<And>x. x \<in> set xs \<Longrightarrow> P x \<Longrightarrow> Q x"
  shows "length (filter P xs) \<le> length (filter Q xs)"
  using assms by (induction xs) auto

lemma ge_f64_mono: "ge_f64 x t' \<Longrightarrow> t \<le> t' \<Longrightarrow> ge_f64 x t"
  by (cases x) auto

text \<open>
  Claim C2.  Whatever the dataset and the controls, the filtered view is obtained from
  the dataset by deleting rows: every row of the view is an unaltered row of the dataset
  and the rows keep the order they have in the dataset.
\<close>

theorem df_filtered_subseq: "subseq (df_filtered df c) df"
  by (simp add: df_filtered_keeps)

text \<open>
  Claim C3.  Filtering is monotonic.  With the other controls held fixed, raising the
  minimum rating, raising the minimum review count, choosing one category in place of
  'All Categories' or choosing one type in place of 'All Types' never increases the number
  of rows of the filtered view.
\<close>

theorem df_filtered_monotone:
  "(min_rating c \<le> t \<longrightarrow>
      length (df_filtered df (c\<lparr>min_rating := t\<rparr>)) \<le> length (df_filtered df c)) \<and>
   (min_reviews c \<le> n \<longrightarrow>
      length (df_filtered df (c\<lparr>min_reviews := n\<rparr>)) \<le> length (df_filtered df c)) \<and>
   (selected_category c = ''All Categories'' \<longrightarrow>
      length (df_filtered df (c\<lparr>selected_category := cat\<rparr>)) \<le> length (df_filtered df c)) \<and>
   (selected_type c = ''All Types'' \<longrightarrow>
      length (df_filtered df (c\<lparr>selected_type := ty\<rparr>)) \<le> length (df_filtered df c))"
proof -
  have rating: "length (df_filtered df (c\<lparr>min_rating := t\<rparr>)) \<le> length (df_filtered df c)"
    if "min_rating c \<le> t"
    unfolding df_filtered_keeps
    by (rule filter_length_mono) (use that in \<open>auto simp: keeps_def intro: ge_f64_mono\<close>)
  have reviews: "length (df_filtered df (c\<lparr>min_reviews := n\<rparr>)) \<le> length (df_filtered df c)"
    if "min_reviews c \<le> n"
    unfolding df_filtered_keeps
    by (rule filter_length_mono) (use that in \<open>auto simp: keeps_def intro: ge_f64_mono\<close>)
  have category:
    "length (df_filtered df (c\<lparr>selected_category := cat\<rparr>)) \<le> length (df_filtered df c)"
    if "selected_category c = ''All Categories''"
    unfolding df_filtered_keeps
    by (rule filter_length_mono) (use that in \<open>auto simp: keeps_def\<close>)
  have type: "length (df_filtered df (c\<lparr>selected_type := ty\<rparr>)) \<le> length (df_filtered df c)"
    if "selected_type c = ''All Types''"
    unfolding df_filtered_keeps
    by (rule filter_length_mono) (use that in \<open>auto simp: keeps_def\<close>)
  from rating reviews category type show ?thesis by blast
qed

lemmas example_simps =
  df_filtered_def example_df_def all_controls_def row_a1_def row_a2_def row_b1_def blank_def

theorem df_filtered_monotone_witness:
  "min_rating all_controls \<le> 4 \<and> min_reviews all_controls \<le> 1000 \<and>
   selected_category all_controls = ''All Categories'' \<and>
   selected_type all_controls = ''All Types'' \<and>
   length (df_filtered example_df all_controls) = 3 \<and>
   length (df_filtered example_df (all_controls\<lparr>min_rating := 4\<rparr>)) \<le> 3 \<and>
   length (df_filtered example_df (all_controls\<lparr>min_reviews := 1000\<rparr>)) \<le> 3 \<and>
   length (df_filtered example_df (all_controls\<lparr>selected_category := ''CatA''\<rparr>)) \<le> 3 \<and>
   length (df_filtered example_df (all_controls\<lparr>selected_type := ''Paid''\<rparr>)) \<le> 3"
proof -
  have h: "min_rating all_controls \<le> 4" "min_reviews all_controls \<le> 1000"
    "selected_category all_controls = ''All Categories''"
    "selected_type all_controls = ''All Types''"
    by (simp_all add: all_controls_def)
  have n: "length (df_filtered example_df all_controls) = 3"
    by (simp add: example_simps)
  from h n df_filtered_monotone [of all_controls 4 example_df 1000 "''CatA''" "''Paid''"]
  show ?thesis by simp
qed

text \<open>
  Claim C4.  Whatever the controls, also with the loosest thresholds 0.0 and 0, a row of
  the dataset whose rating is missing or whose review count is missing is not a row of the
  filtered view: a comparison of a missing value with a threshold is false.
\<close>

theorem df_filtered_excludes_missing:
  "Rating r = NaN \<or> Reviews r = NaN \<Longrightarrow> r \<notin> set (df_filtered df c)"
  by (auto simp: df_filtered_keeps keeps_def)

theorem df_filtered_excludes_missing_witness:
  "Rating (row_a1\<lparr>Reviews := NaN\<rparr>) \<noteq> NaN \<and> Reviews (row_a1\<lparr>Reviews := NaN\<rparr>) = NaN \<and>
   min_rating all_controls = 0 \<and> min_reviews all_controls = 0 \<and>
   row_a1\<lparr>Reviews := NaN\<rparr> \<notin> set (df_filtered [row_a1\<lparr>Reviews := NaN\<rparr>, row_a2] all_controls) \<and>
   row_a2 \<in> set (df_filtered [row_a1\<lparr>Reviews := NaN\<rparr>, row_a2] all_controls)"
proof -
  have h: "Rating (row_a1\<lparr>Reviews := NaN\<rparr>) = NaN \<or> Reviews (row_a1\<lparr>Reviews := NaN\<rparr>) = NaN"
    by simp
  have "row_a2 \<in> set (df_filtered [row_a1\<lparr>Reviews := NaN\<rparr>, row_a2] all_controls)"
    by (simp add: example_simps)
  with df_filtered_excludes_missing [OF h, of "[row_a1\<lparr>Reviews := NaN\<rparr>, row_a2]" all_controls]
  show ?thesis by (simp add: all_controls_def row_a1_def blank_def)
qed

section \<open>Properties of the key metrics\<close>

lemma format_f_NaN: "format_f False prec NaN = ''nan''"
  by (simp add: format_f_def)

text \<open>
  Claim C1, as the code has it.  The script has no branch for an empty view.  When the
  filtered view is empty, the mean rating and the share of free apps are both NaN, and
  the two metrics show the texts \<^verbatim>\<open>nan \<close> and \<^verbatim>\<open>nan%\<close>: no exception is raised and
  no zero is shown, and no placeholder stands in for the NaN either.
\<close>

theorem empty_view_metrics_are_nan:
  assumes "df_filtered df c = []"
  shows "avg_rating (df_filtered df c) = NaN \<and>
         m_value (avg_rating_metric df (df_filtered df c)) = ''nan '' \<and>
         free_percentage (df_filtered df c) = NaN \<and>
         m_value (free_apps_metric (df_filtered df c)) = ''nan%''"
  using assms
  by (simp add: avg_rating_def series_mean_def avg_rating_metric_def free_percentage_def
      true_divide_def free_apps_metric_def format_f_NaN)

theorem empty_view_metrics_are_nan_witness:
  "df_filtered example_df (all_controls\<lparr>min_reviews := 10000\<rparr>) = [] \<and>
   m_value (avg_rating_metric example_df
     (df_filtered example_df (all_controls\<lparr>min_reviews := 10000\<rparr>))) = ''nan '' \<and>
   m_value (free_apps_metric
     (df_filtered example_df (all_controls\<lparr>min_reviews := 10000\<rparr>))) = ''nan%''"
proof -
  have h: "df_filtered example_df (all_controls\<lparr>min_reviews := 10000\<rparr>) = []"
    by (simp add: example_simps)
  from h empty_view_metrics_are_nan [OF h] show ?thesis by simp
qed

text \<open>
  The claim as the spec states it fails on the spec's own example: with a minimum of
  10000 reviews the view of the three example rows is empty, the mean rating is NaN and
  is shown as \<^verbatim>\<open>nan \<close>, and the share of free apps is NaN and is shown as
  \<^verbatim>\<open>nan%\<close>.
\<close>

theorem empty_view_counterexample:
  "df_filtered example_df (all_controls\<lparr>min_reviews := 10000\<rparr>) = [] \<and>
   avg_rating (df_filtered example_df (all_controls\<lparr>min_reviews := 10000\<rparr>)) = NaN \<and>
   avg_rating_metric example_df (df_filtered example_df (all_controls\<lparr>min_reviews := 10000\<rparr>)) =
     \<lparr>m_label = ''Average Rating'', m_value = ''nan '', m_delta = Some ''+nan''\<rparr> \<and>
   free_percentage (df_filtered example_df (all_controls\<lparr>min_reviews := 10000\<rparr>)) = NaN \<and>
   free_apps_metric (df_filtered example_df (all_controls\<lparr>min_reviews := 10000\<rparr>)) =
     \<lparr>m_label = ''Free Apps'', m_value = ''nan%'', m_delta = None\<rparr>"
proof -
  have h: "df_filtered example_df (all_controls\<lparr>min_reviews := 10000\<rparr>) = []"
    by (simp add: example_simps)
  show ?thesis
    unfolding h
    by (simp add: avg_rating_def series_mean_def avg_rating_metric_def free_percentage_def
        true_divide_def free_apps_metric_def format_f_def example_df_def)
qed

section \<open>Properties of the category summary\<close>

lemma sum_count_distinct:
  "distinct ks \<Longrightarrow>
     (\<Sum>k\<leftarrow>ks. length (filter (\<lambda>r. f r = Some k \<and> P r) xs))
       = length (filter (\<lambda>r. (\<exists>k\<in>set ks. f r = Some k) \<and> P r) xs)"
proof (induction ks)
  case Nil
  then show ?case by simp
next
  case (Cons k ks)
  have "length (filter (\<lambda>r. (\<exists>k'\<in>set (k # ks). f r = Some k') \<and> P r) xs)
      = length (filter (\<lambda>r. f r = Some k \<and> P r) xs)
        + length (filter (\<lambda>r. (\<exists>k'\<in>set ks. f r = Some k') \<and> P r) xs)"
    using Cons.prems by (induction xs) auto
  with Cons show ?case by simp
qed

lemma set_group_keys: "set (group_keys fv) = {k. \<exists>r\<in>set fv. Category r = Some k}"
  by (force simp: group_keys_def List.map_filter_def)

lemma distinct_group_keys: "distinct (group_keys fv)"
  by (simp add: group_keys_def)

lemma sum_list_sort_key: "sum_list (map g (sort_key f xs)) = sum_list (map g xs)"
  for g :: "'a \<Rightarrow> nat"
proof -
  have "mset (map g (sort_key f xs)) = mset (map g xs)"
    by simp
  then show ?thesis
    by (metis sum_mset_sum_list)
qed

lemma category_summary_sum:
  "sum_list (map app_count (category_summary fv))
     = length (filter (\<lambda>r. Category r \<noteq> None \<and> App r \<noteq> None) fv)"
proof -
  have "sum_list (map app_count (category_summary fv))
      = (\<Sum>k\<leftarrow>group_keys fv. length (filter (\<lambda>r. Category r = Some k \<and> App r \<noteq> None) fv))"
    unfolding category_summary_def sum_list_sort_key
    by (simp add: o_def summarize_def count_notna_def group_rows_def length_filter_map conj_commute)
  also have "\<dots> = length (filter
      (\<lambda>r. (\<exists>k\<in>set (group_keys fv). Category r = Some k) \<and> App r \<noteq> None) fv)"
    by (rule sum_count_distinct) (rule distinct_group_keys)
  also have "\<dots> = length (filter (\<lambda>r. Category r \<noteq> None \<and> App r \<noteq> None) fv)"
    by (rule arg_cong [where f = length], rule filter_cong) (auto simp: set_group_keys)
  finally show ?thesis .
qed

text \<open>
  Claim C6, as the code has it.  The app counts of the category summary sum to the number
  of rows of the filtered view whose category and whose app name are both present: a row
  with a missing category is in no group, and \<^verbatim>\<open>'App': 'count'\<close> does not count a missing
  name.  When no row of the view misses its category or its name, the sum is the number of
  rows of the view.
\<close>

theorem category_summary_counts:
  "sum_list (map app_count (category_summary fv))
     = length (filter (\<lambda>r. Category r \<noteq> None \<and> App r \<noteq> None) fv) \<and>
   ((\<forall>r\<in>set fv. Category r \<noteq> None \<and> App r \<noteq> None) \<longrightarrow>
      sum_list (map app_count (category_summary fv)) = length fv)"
proof -
  have "length (filter (\<lambda>r. Category r \<noteq> None \<and> App r \<noteq> None) fv) = length fv"
    if "\<forall>r\<in>set fv. Category r \<noteq> None \<and> App r \<noteq> None"
    using that by (induction fv) auto
  then show ?thesis
    by (simp add: category_summary_sum)
qed

theorem category_summary_counts_witness:
  "df_filtered example_df all_controls = [row_a1, row_a2, row_b1] \<and>
   Category row_a1 \<noteq> None \<and> App row_a1 \<noteq> None \<and>
   Category row_a2 \<noteq> None \<and> App row_a2 \<noteq> None \<and>
   Category row_b1 \<noteq> None \<and> App row_b1 \<noteq> None \<and>
   map (\<lambda>s. (category s, app_count s)) (category_summary (df_filtered example_df all_controls))
     = [(''CatA'', 2), (''CatB'', 1)] \<and>
   sum_list (map app_count (category_summary (df_filtered example_df all_controls))) = 3 \<and>
   length (df_filtered example_df all_controls) = 3"
proof -
  have v: "df_filtered example_df all_controls = example_df"
    by (simp add: example_simps)
  have h: "\<forall>r\<in>set (df_filtered example_df all_controls). Category r \<noteq> None \<and> App r \<noteq> None"
    unfolding v by (simp add: example_df_def row_a1_def row_a2_def row_b1_def blank_def)
  have rows: "map (\<lambda>s. (category s, app_count s))
      (category_summary (df_filtered example_df all_controls)) = [(''CatA'', 2), (''CatB'', 1)]"
    unfolding v
    by (simp add: category_summary_def group_keys_def group_rows_def summarize_def
        count_notna_def List.map_filter_def example_df_def row_a1_def row_a2_def row_b1_def
        blank_def)
  have n: "length (df_filtered example_df all_controls) = 3"
    unfolding v by (simp add: example_df_def)
  have present: "Category row_a1 \<noteq> None \<and> App row_a1 \<noteq> None \<and>
      Category row_a2 \<noteq> None \<and> App row_a2 \<noteq> None \<and>
      Category row_b1 \<noteq> None \<and> App row_b1 \<noteq> None"
    by (simp add: row_a1_def row_a2_def row_b1_def blank_def)
  from h rows n category_summary_counts [of "df_filtered example_df all_controls"]
  have "sum_list (map app_count (category_summary (df_filtered example_df all_controls))) = 3"
    by simp
  with v rows n present show ?thesis
    by (simp add: example_df_def)
qed

text \<open>
  The claim as the spec states it fails for a view with a row whose category is missing:
  with 'All Categories' selected the row is in the view, and it is in no group.
\<close>

theorem category_summary_counterexample:
  "df_filtered [row_a1, row_a2\<lparr>Category := None\<rparr>] all_controls
     = [row_a1, row_a2\<lparr>Category := None\<rparr>] \<and>
   map (\<lambda>s. (category s, app_count s)) (category_summary [row_a1, row_a2\<lparr>Category := None\<rparr>])
     = [(''CatA'', 1)] \<and>
   sum_list (map app_count (category_summary [row_a1, row_a2\<lparr>Category := None\<rparr>]))
     \<noteq> length [row_a1, row_a2\<lparr>Category := None\<rparr>]"
  by (simp add: example_simps category_summary_def group_keys_def group_rows_def summarize_def
      count_notna_def List.map_filter_def)

section \<open>Properties of one pass and of the scatter sample\<close>

lemma sample_all:
  assumes "valid_draw (length xs) perm"
  shows "image_mset ((!) xs) (mset perm) = mset xs"
proof -
  have "image_mset ((!) xs) (mset perm) = mset (map ((!) xs) [0..<length xs])"
    using assms by (simp add: valid_draw_def)
  then show ?thesis by (simp add: map_nth)
qed

lemma mset_take_subset: "mset (take n xs) \<subseteq># mset xs"
  by (metis append_take_drop_id mset_append mset_subset_eq_add_left)

lemma valid_draw_length: "valid_draw n perm \<Longrightarrow> length perm = n"
  unfolding valid_draw_def by (metis size_mset length_upt diff_zero)

lemma sample_df_rows:
  assumes "valid_draw (length fv) perm"
  shows "length (sample_df perm fv) = min 1000 (length fv) \<and>
         mset (sample_df perm fv) \<subseteq># mset fv \<and>
         (length fv \<le> 1000 \<longrightarrow> mset (sample_df perm fv) = mset fv)"
proof -
  have len: "length perm = length fv"
    using assms by (rule valid_draw_length)
  have "mset (map (\<lambda>i. fv ! i) (take (min 1000 (length fv)) perm))
      \<subseteq># mset (map (\<lambda>i. fv ! i) perm)"
    unfolding mset_map by (rule image_mset_subseteq_mono) (rule mset_take_subset)
  also have "mset (map (\<lambda>i. fv ! i) perm) = mset fv"
    by (simp add: sample_all [OF assms])
  finally have sub: "mset (sample_df perm fv) \<subseteq># mset fv"
    by (simp add: sample_df_def sample_def)
  have "mset (sample_df perm fv) = mset fv" if "length fv \<le> 1000"
    using that len by (simp add: sample_df_def sample_def sample_all [OF assms] min_def)
  with sub len show ?thesis
    by (simp add: sample_df_def sample_def)
qed

lemma dashboard_sample: "o_sample_df (dashboard perm df c) = sample_df perm (df_filtered df c)"
  by (simp add: dashboard_def Let_def)

lemma full_df_view: "df_filtered full_df all_controls = full_df"
  by (simp add: df_filtered_def all_controls_def full_df_def app_notes_def app_abc_def
      app_pro_def)

lemma full_df_distinct: "app_notes \<noteq> app_abc" "app_notes \<noteq> app_pro" "app_abc \<noteq> app_pro"
  by (simp_all add: app_notes_def app_abc_def app_pro_def)

lemma full_df_blank_view: "df_filtered (full_df @ [blank]) all_controls = full_df"
  by (simp add: df_filtered_def all_controls_def full_df_def app_notes_def app_abc_def
      app_pro_def blank_def)

text \<open>
  Claim C5, as the code has it.  Two passes of the script over the same dataset with the
  same controls compute the same filtered view, metrics, category tables, sentiment
  figures, top tables and bucket means, whatever the random generator draws in each: they
  differ in the scatter sample at most.  Of these, all but the Total Apps and the Average
  Rating metric, whose deltas compare the view with the dataset, are the same for two
  datasets and settings of the controls that give the same filtered view.  The scatter
  sample does depend on the draw.  Whatever permutation of the positions is drawn, the
  sample has \<open>min 1000 n\<close> rows for a view of \<open>n\<close> rows, its rows are rows of the view,
  none taken more often than it occurs there, and for a view of at most 1000 rows the
  sample is the view with its rows reordered.
\<close>

theorem dashboard_random_only_in_sample:
  "dashboard perm df c
     = (dashboard perm' df c)\<lparr>o_sample_df := sample_df perm (df_filtered df c)\<rparr> \<and>
   (df_filtered df c = df_filtered df' c' \<longrightarrow>
      dashboard perm df c
        = (dashboard perm df' c')
            \<lparr>o_total_apps := total_apps_metric df c (df_filtered df c),
             o_avg_rating := avg_rating_metric df (df_filtered df c)\<rparr>) \<and>
   (valid_draw (length (df_filtered df c)) perm \<longrightarrow>
      length (o_sample_df (dashboard perm df c)) = min 1000 (length (df_filtered df c)) \<and>
      mset (o_sample_df (dashboard perm df c)) \<subseteq># mset (df_filtered df c) \<and>
      (length (df_filtered df c) \<le> 1000 \<longrightarrow>
         mset (o_sample_df (dashboard perm df c)) = mset (df_filtered df c)))"
proof -
  have draw: "dashboard perm df c
      = (dashboard perm' df c)\<lparr>o_sample_df := sample_df perm (df_filtered df c)\<rparr>"
    by (simp add: dashboard_def Let_def)
  have view: "dashboard perm df c
      = (dashboard perm df' c')
          \<lparr>o_total_apps := total_apps_metric df c (df_filtered df c),
           o_avg_rating := avg_rating_metric df (df_filtered df c)\<rparr>"
    if "df_filtered df c = df_filtered df' c'"
    using that by (simp add: dashboard_def Let_def)
  from draw view show ?thesis
    using sample_df_rows [of "df_filtered df c" perm] by (simp add: dashboard_sample)
qed

theorem dashboard_random_only_in_sample_witness:
  "df_filtered full_df all_controls = [app_notes, app_abc, app_pro] \<and>
   df_filtered (full_df @ [blank]) all_controls = [app_notes, app_abc, app_pro] \<and>
   valid_draw 3 [2, 0, 1] \<and>
   dashboard [2, 0, 1] full_df all_controls
     = (dashboard [0, 1, 2] full_df all_controls)\<lparr>o_sample_df := [app_pro, app_notes, app_abc]\<rparr> \<and>
   dashboard [2, 0, 1] full_df all_controls
     = (dashboard [2, 0, 1] (full_df @ [blank]) all_controls)
         \<lparr>o_total_apps := total_apps_metric full_df all_controls [app_notes, app_abc, app_pro],
          o_avg_rating := avg_rating_metric full_df [app_notes, app_abc, app_pro]\<rparr> \<and>
   length (o_sample_df (dashboard [2, 0, 1] full_df all_controls)) = 3 \<and>
   mset (o_sample_df (dashboard [2, 0, 1] full_df all_controls))
     = mset [app_notes, app_abc, app_pro]"
proof -
  have v: "df_filtered full_df all_controls = [app_notes, app_abc, app_pro]"
    using full_df_view by (simp add: full_df_def)
  have w: "df_filtered (full_df @ [blank]) all_controls = [app_notes, app_abc, app_pro]"
    using full_df_blank_view by (simp add: full_df_def)
  have h: "valid_draw 3 [2, 0, 1]"
    by (simp add: valid_draw_def upt_rec numeral_3_eq_3)
  have s: "sample_df [2, 0, 1] [app_notes, app_abc, app_pro] = [app_pro, app_notes, app_abc]"
    by (simp add: sample_df_def sample_def)
  note t = dashboard_random_only_in_sample
      [of "[2, 0, 1]" full_df all_controls "[0, 1, 2]" "full_df @ [blank]" all_controls]
  have a: "dashboard [2, 0, 1] full_df all_controls
     = (dashboard [0, 1, 2] full_df all_controls)\<lparr>o_sample_df := [app_pro, app_notes, app_abc]\<rparr>"
    using t unfolding v s by (rule conjunct1)
  have b: "dashboard [2, 0, 1] full_df all_controls
     = (dashboard [2, 0, 1] (full_df @ [blank]) all_controls)
         \<lparr>o_total_apps := total_apps_metric full_df all_controls [app_notes, app_abc, app_pro],
          o_avg_rating := avg_rating_metric full_df [app_notes, app_abc, app_pro]\<rparr>"
    using t [THEN conjunct2, THEN conjunct1] unfolding v w by blast
  have c: "length (o_sample_df (dashboard [2, 0, 1] full_df all_controls)) = 3 \<and>
      mset (o_sample_df (dashboard [2, 0, 1] full_df all_controls))
        = mset [app_notes, app_abc, app_pro]"
    using t [THEN conjunct2, THEN conjunct2] h unfolding v
    by (simp add: numeral_3_eq_3)
  from v w h a b c show ?thesis
    by (intro conjI) (erule conjunct1 conjunct2 | assumption)+
qed

text \<open>
  The claim as the spec states it fails for the scatter input: for the view of the three
  apps, two draws of the generator give two different samples.
\<close>

theorem sample_df_counterexample:
  "df_filtered full_df all_controls = [app_notes, app_abc, app_pro] \<and>
   valid_draw 3 [0, 1, 2] \<and> valid_draw 3 [2, 0, 1] \<and>
   o_sample_df (dashboard [0, 1, 2] full_df all_controls) = [app_notes, app_abc, app_pro] \<and>
   o_sample_df (dashboard [2, 0, 1] full_df all_controls) = [app_pro, app_notes, app_abc] \<and>
   o_sample_df (dashboard [0, 1, 2] full_df all_controls)
     \<noteq> o_sample_df (dashboard [2, 0, 1] full_df all_controls)"
proof -
  have v: "df_filtered full_df all_controls = [app_notes, app_abc, app_pro]"
    using full_df_view by (simp add: full_df_def)
  have "valid_draw 3 [0, 1, 2]" "valid_draw 3 [2, 0, 1]"
    by (simp_all add: valid_draw_def upt_rec numeral_3_eq_3)
  moreover have "sample_df [0, 1, 2] [app_notes, app_abc, app_pro]
      = [app_notes, app_abc, app_pro]"
    and "sample_df [2, 0, 1] [app_notes, app_abc, app_pro] = [app_pro, app_notes, app_abc]"
    by (simp_all add: sample_df_def sample_def)
  ultimately show ?thesis
    using full_df_distinct by (simp add: dashboard_sample v)
qed

section \<open>Properties of the price buckets\<close>

lemma cent_value: "f64_round (1 / 100) = 5764607523034235 / 2 ^ 59"
  by code_simp

lemma mean_of_three: "f64_round (kahan_sum [3]) = 3"
  by code_simp

lemma cut_price_bins:
  "pd_cut price_bins x =
     (if in_left_open 0 (f64_round (1 / 100)) x then Some 0
      else if in_left_open (f64_round (1 / 100)) 2 x then Some 1
      else if in_left_open 2 5 x then Some 2
      else if in_left_open 5 10 x then Some 3
      else if in_left_open 10 100 x then Some 4
      else None)"
  unfolding cent_value by (cases x) (auto simp: price_bins_def searchsorted_left_def cent_value)

lemma cut_price_bins_iff:
  "pd_cut price_bins x = Some 0 \<longleftrightarrow> in_left_open 0 (f64_round (1 / 100)) x"
  "pd_cut price_bins x = Some 1 \<longleftrightarrow> in_left_open (f64_round (1 / 100)) 2 x"
  "pd_cut price_bins x = Some 2 \<longleftrightarrow> in_left_open 2 5 x"
  "pd_cut price_bins x = Some 3 \<longleftrightarrow> in_left_open 5 10 x"
  "pd_cut price_bins x = Some 4 \<longleftrightarrow> in_left_open 10 100 x"
  unfolding cut_price_bins cent_value by (cases x; auto)+

lemma cut_price_bins_Suc0:
  "pd_cut price_bins x = Some (Suc 0) \<longleftrightarrow> in_left_open (f64_round (1 / 100)) 2 x"
  using cut_price_bins_iff(2) by simp

lemma cut_price_bins_range: "pd_cut price_bins x = Some i \<Longrightarrow> in_left_open 0 100 x"
  unfolding cut_price_bins cent_value by (cases x) (auto split: if_splits)

lemma bucket_means_outside:
  assumes "\<And>r i. r \<in> set fv \<Longrightarrow> pd_cut bins (col r) = Some i \<Longrightarrow> P r"
  shows "bucket_means bins col (filter P fv) = bucket_means bins col fv"
proof -
  have "filter (\<lambda>r. pd_cut bins (col r) = Some i) (filter P fv)
      = filter (\<lambda>r. pd_cut bins (col r) = Some i) fv" for i
    using assms by (auto intro: filter_cong)
  then show ?thesis by (simp add: bucket_means_def)
qed

lemma length_price_bins: "[0..<length price_bins - 1] = [0, 1, 2, 3, 4]"
  by (simp add: price_bins_def upt_rec)

lemma price_rating_bars:
  "price_rating fv =
     map (\<lambda>(lo, hi). group_mean (map Rating (filter (\<lambda>r. in_left_open lo hi (Price_Clean r)) fv)))
       [(0, f64_round (1 / 100)), (f64_round (1 / 100), 2), (2, 5), (5, 10), (10, 100)]"
  using length_price_bins
  by (simp add: price_rating_def bucket_means_def cut_price_bins_iff cut_price_bins_Suc0)

text \<open>
  Claim C10.  The price buckets are the five intervals from 0 to 0.01, to 2, to 5, to 10
  and to 100, each open at its lower and closed at its upper edge, where 0.01 is the
  \<^verbatim>\<open>float64\<close> of that name.  A row whose price is exactly 0, or greater than 100, is in
  no bucket, so the buckets do not partition the view: the means are those of the view
  without the rows outside the five intervals.  The bar labelled 'Free' is the mean rating
  of the rows with a price above 0 and at most 0.01.
\<close>

theorem price_buckets_left_open:
  "f64_round (1 / 100) = 5764607523034235 / 2 ^ 59 \<and>
   (pd_cut price_bins (Price_Clean r) = Some 0
      \<longleftrightarrow> in_left_open 0 (f64_round (1 / 100)) (Price_Clean r)) \<and>
   (pd_cut price_bins (Price_Clean r) = Some 1
      \<longleftrightarrow> in_left_open (f64_round (1 / 100)) 2 (Price_Clean r)) \<and>
   (pd_cut price_bins (Price_Clean r) = Some 2 \<longleftrightarrow> in_left_open 2 5 (Price_Clean r)) \<and>
   (pd_cut price_bins (Price_Clean r) = Some 3 \<longleftrightarrow> in_left_open 5 10 (Price_Clean r)) \<and>
   (pd_cut price_bins (Price_Clean r) = Some 4 \<longleftrightarrow> in_left_open 10 100 (Price_Clean r)) \<and>
   (Price_Clean r = Val 0 \<or> (\<exists>p. Price_Clean r = Val p \<and> 100 < p) \<longrightarrow>
      pd_cut price_bins (Price_Clean r) = None) \<and>
   price_chart fv ! 0 =
     (''Free'',
      group_mean (map Rating
        (filter (\<lambda>r. in_left_open 0 (f64_round (1 / 100)) (Price_Clean r)) fv))) \<and>
   price_rating (filter (\<lambda>r. in_left_open 0 100 (Price_Clean r)) fv) = price_rating fv"
proof -
  have outside:
    "price_rating (filter (\<lambda>r. in_left_open 0 100 (Price_Clean r)) fv) = price_rating fv"
    unfolding price_rating_def by (rule bucket_means_outside) (rule cut_price_bins_range)
  have free: "price_chart fv ! 0 =
     (''Free'',
      group_mean (map Rating
        (filter (\<lambda>r. in_left_open 0 (f64_round (1 / 100)) (Price_Clean r)) fv)))"
    by (simp add: price_chart_def price_rating_bars)
  have none: "pd_cut price_bins (Price_Clean r) = None"
    if "Price_Clean r = Val 0 \<or> (\<exists>p. Price_Clean r = Val p \<and> 100 < p)"
    using that unfolding cut_price_bins cent_value by auto
  from outside free none cent_value show ?thesis
    by (simp only: cut_price_bins_iff) blast
qed

theorem price_buckets_left_open_witness:
  "df_filtered full_df all_controls = [app_notes, app_abc, app_pro] \<and>
   Price_Clean app_notes = Val 0 \<and>
   pd_cut price_bins (Price_Clean app_notes) = None \<and>
   Price_Clean app_abc = Val (f64_round (1 / 100)) \<and>
   pd_cut price_bins (Price_Clean app_abc) = Some 0 \<and>
   Price_Clean app_pro = Val 150 \<and>
   pd_cut price_bins (Price_Clean app_pro) = None \<and>
   price_chart [app_notes, app_abc, app_pro] ! 0 = (''Free'', Val 3)"
proof -
  have v: "df_filtered full_df all_controls = [app_notes, app_abc, app_pro]"
    using full_df_view by (simp add: full_df_def)
  have prices: "Price_Clean app_notes = Val 0"
    "Price_Clean app_abc = Val (f64_round (1 / 100))" "Price_Clean app_pro = Val 150"
    by (simp_all add: app_notes_def app_abc_def app_pro_def)
  have pos: "(0::real) < f64_round (1 / 100)"
    unfolding cent_value by simp
  have small: "\<not> (150::real) \<le> f64_round (1 / 100)"
    unfolding cent_value by simp
  have rows: "filter (\<lambda>r. in_left_open 0 (f64_round (1 / 100)) (Price_Clean r))
      [app_notes, app_abc, app_pro] = [app_abc]"
    using pos small by (simp add: prices)
  have mean: "group_mean (map Rating [app_abc]) = Val 3"
    by (simp add: group_mean_def app_abc_def mean_of_three)
  have zero: "pd_cut price_bins (Price_Clean app_notes) = None"
    using price_buckets_left_open [of app_notes "[app_notes, app_abc, app_pro]"] prices(1)
    by blast
  have pro: "pd_cut price_bins (Price_Clean app_pro) = None"
    using price_buckets_left_open [of app_pro "[app_notes, app_abc, app_pro]"] prices(3)
    by simp
  have abc: "pd_cut price_bins (Price_Clean app_abc) = Some 0"
    using price_buckets_left_open [of app_abc "[app_notes, app_abc, app_pro]"] pos
    by (simp add: prices(2))
  have chart: "price_chart [app_notes, app_abc, app_pro] ! 0 = (''Free'', Val 3)"
    using price_buckets_left_open [of app_abc "[app_notes, app_abc, app_pro]"]
    unfolding rows mean by blast
  from v prices zero pro abc chart show ?thesis by simp
qed

section \<open>Properties of the search\<close>










section \<open>Properties of the percentages\<close>

subsection \<open>The error of rounding\<close>

lemma round_half_even_err: "\<bar>real_of_int (round_half_even x) - x\<bar> \<le> 1 / 2"
  unfolding round_half_even_def Let_def by (auto simp: abs_if) linarith+

lemma exponent2_bounds:
  assumes "0 < x"
  shows "2 powi (exponent2 x) \<le> x \<and> x < 2 powi (exponent2 x + 1)"
proof (cases "1 \<le> x")
  case True
  define n where "n = nat \<lfloor>x\<rfloor>"
  have fl: "1 \<le> \<lfloor>x\<rfloor>" using True by simp
  then have rn: "real n = real_of_int \<lfloor>x\<rfloor>"
    unfolding n_def by simp
  have n: "0 < n" "real n \<le> x" "x < real n + 1"
  proof -
    show "0 < n" using fl unfolding n_def by simp
    show "real n \<le> x" unfolding rn by (rule of_int_floor_le)
    show "x < real n + 1" unfolding rn by linarith
  qed
  from floorlog_bounds [of n 2] n(1)
  have b: "2 ^ (floorlog 2 n - 1) \<le> n" "n < 2 ^ floorlog 2 n" by auto
  have pos: "0 < floorlog 2 n"
    using n(1) by (simp add: floorlog_def)
  have e: "exponent2 x = int (floorlog 2 n - 1)"
    using True pos by (simp add: exponent2_def n_def of_nat_diff)
  have "(2::real) powi (exponent2 x) = 2 ^ (floorlog 2 n - 1)"
    unfolding e by simp
  also have "\<dots> \<le> real n"
  proof -
    have "real (2 ^ (floorlog 2 n - 1)) \<le> real n" using b(1) by (rule of_nat_mono)
    then show ?thesis by simp
  qed
  finally have lo: "2 powi (exponent2 x) \<le> x" using n(2) by linarith
  have "exponent2 x + 1 = int (floorlog 2 n)"
    unfolding e using pos by simp
  then have "(2::real) powi (exponent2 x + 1) = 2 ^ floorlog 2 n" by simp
  moreover have "real n + 1 \<le> 2 ^ floorlog 2 n"
  proof -
    have "Suc n \<le> 2 ^ floorlog 2 n" using b(2) by simp
    then have "real (Suc n) \<le> real (2 ^ floorlog 2 n)" by (rule of_nat_mono)
    then show ?thesis by simp
  qed
  ultimately have "x < 2 powi (exponent2 x + 1)" using n(3) by linarith
  with lo show ?thesis by simp
next
  case False
  define y where "y = 1 / x"
  have y: "1 < y" using assms False by (simp add: y_def)
  define k where "k = nat (\<lceil>y\<rceil> - 1)"
  have cl: "2 \<le> \<lceil>y\<rceil>" using y by (simp add: le_ceiling_iff)
  then have rk: "real k = real_of_int \<lceil>y\<rceil> - 1"
    unfolding k_def by simp
  have k: "0 < k" "real k < y" "y \<le> real k + 1"
  proof -
    show "0 < k" using cl unfolding k_def by simp
    show "real k < y" unfolding rk by linarith
    show "y \<le> real k + 1" unfolding rk by linarith
  qed
  from floorlog_bounds [of k 2] k(1)
  have b: "2 ^ (floorlog 2 k - 1) \<le> k" "k < 2 ^ floorlog 2 k" by auto
  have pos: "0 < floorlog 2 k"
    using k(1) by (simp add: floorlog_def)
  have e: "exponent2 x = - int (floorlog 2 k)"
    using False by (simp add: exponent2_def k_def y_def)
  have "real k + 1 \<le> 2 ^ floorlog 2 k"
  proof -
    have "Suc k \<le> 2 ^ floorlog 2 k" using b(2) by simp
    then have "real (Suc k) \<le> real (2 ^ floorlog 2 k)" by (rule of_nat_mono)
    then show ?thesis by simp
  qed
  then have "y \<le> 2 ^ floorlog 2 k" using k(3) by linarith
  then have "1 / 2 ^ floorlog 2 k \<le> x"
    using assms unfolding y_def by (simp add: field_simps)
  then have lo: "2 powi (exponent2 x) \<le> x"
    unfolding e by (simp add: power_int_minus field_simps)
  have "(2::real) ^ (floorlog 2 k - 1) \<le> real k"
  proof -
    have "real (2 ^ (floorlog 2 k - 1)) \<le> real k" using b(1) by (rule of_nat_mono)
    then show ?thesis by simp
  qed
  then have "2 ^ (floorlog 2 k - 1) < y" using k(2) by linarith
  then have "x < 1 / 2 ^ (floorlog 2 k - 1)"
    using assms unfolding y_def by (simp add: field_simps)
  moreover have "exponent2 x + 1 = - int (floorlog 2 k - 1)"
    unfolding e using pos by simp
  then have "(2::real) powi (exponent2 x + 1) = 1 / 2 ^ (floorlog 2 k - 1)"
    by (simp add: power_int_minus field_simps)
  ultimately show ?thesis using lo by simp
qed

lemma f64_round_err: "\<bar>f64_round x - x\<bar> \<le> \<bar>x\<bar> / 2 ^ 53"
proof (cases "x = 0")
  case True
  then show ?thesis by (simp add: f64_round_def)
next
  case False
  define e where "e = exponent2 \<bar>x\<bar> - 52"
  define m where "m = \<bar>x\<bar> / 2 powi e"
  define r where "r = real_of_int (round_half_even m)"
  have p: "(0::real) < 2 powi e" by simp
  have fx: "f64_round x = sgn x * r * 2 powi e"
    using False by (simp add: f64_round_def Let_def e_def m_def r_def)
  have x: "x = sgn x * m * 2 powi e"
    unfolding m_def using p by (simp add: sgn_mult_abs)
  have "f64_round x - x = sgn x * (r - m) * 2 powi e"
    unfolding fx by (subst (2) x) (simp add: algebra_simps)
  then have "\<bar>f64_round x - x\<bar> = \<bar>r - m\<bar> * 2 powi e"
    using False by (simp add: abs_mult abs_sgn_eq)
  also have "\<dots> \<le> 1 / 2 * 2 powi e"
    using round_half_even_err [of m] p unfolding r_def by (intro mult_right_mono) auto
  also have "\<dots> \<le> \<bar>x\<bar> / 2 ^ 53"
  proof -
    have "2 powi (exponent2 \<bar>x\<bar>) \<le> \<bar>x\<bar>"
      using exponent2_bounds [of "\<bar>x\<bar>"] False by simp
    moreover have "(2::real) powi (exponent2 \<bar>x\<bar>) = 2 powi e * 2 ^ 52"
      unfolding e_def by (simp add: power_int_diff)
    ultimately show ?thesis by simp
  qed
  finally show ?thesis .
qed


lemma f64_round_err_le:
  assumes "\<bar>x\<bar> \<le> b"
  shows "\<bar>f64_round x - x\<bar> \<le> b / 2 ^ 53"
proof -
  have "\<bar>f64_round x - x\<bar> \<le> \<bar>x\<bar> / 2 ^ 53" by (rule f64_round_err)
  also have "\<dots> \<le> b / 2 ^ 53" using assms by (simp add: divide_right_mono)
  finally show ?thesis .
qed

lemma percentage_err:
  assumes "0 \<le> A"
  shows "\<bar>f64_round (f64_round A * 100) - 100 * A\<bar> \<le> A * (201 / 2 ^ 53)"
proof -
  define u :: real where "u = 1 / 2 ^ 53"
  have u: "0 < u" "u \<le> 1 / 100" by (simp_all add: u_def)
  have 1: "\<bar>f64_round A - A\<bar> \<le> A * u"
    using f64_round_err [of A] assms by (simp add: u_def)
  have au: "0 \<le> A * u" using assms u by simp
  have "\<bar>f64_round A\<bar> \<le> A + A * u"
    using 1 assms by linarith
  then have "\<bar>f64_round A\<bar> * 100 \<le> (A + A * u) * 100"
    by (rule mult_right_mono) simp
  then have 2: "\<bar>f64_round A * 100\<bar> \<le> 100 * A * (1 + u)"
    by (simp add: abs_mult algebra_simps)
  have "\<bar>f64_round (f64_round A * 100) - f64_round A * 100\<bar> \<le> 100 * A * (1 + u) * u"
    using f64_round_err_le [OF 2] by (simp add: u_def)
  moreover have "\<bar>f64_round A * 100 - 100 * A\<bar> \<le> 100 * A * u"
  proof -
    have "\<bar>f64_round A - A\<bar> * 100 \<le> A * u * 100"
      using 1 by (rule mult_right_mono) simp
    moreover have "f64_round A * 100 - 100 * A = (f64_round A - A) * 100"
      by (simp add: algebra_simps)
    ultimately show ?thesis by (simp add: abs_mult algebra_simps)
  qed
  ultimately have "\<bar>f64_round (f64_round A * 100) - 100 * A\<bar> \<le> 100 * A * (1 + u) * u + 100 * A * u"
    by linarith
  also have "\<dots> = A * (u * (200 + 100 * u))" by (simp add: algebra_simps)
  also have "\<dots> \<le> A * (u * 201)"
    using assms u by (intro mult_left_mono) auto
  finally show ?thesis by (simp add: u_def)
qed

lemma percentages_sum_err:
  assumes "0 \<le> A" "0 \<le> B" "A + B = 1"
  shows "\<bar>f64_round (f64_round (f64_round A * 100) + f64_round (f64_round B * 100)) - 100\<bar>
           \<le> 1 / 2 ^ 44"
proof -
  define f where "f = f64_round (f64_round A * 100)"
  define p where "p = f64_round (f64_round B * 100)"
  have "\<bar>f - 100 * A\<bar> \<le> A * (201 / 2 ^ 53)" "\<bar>p - 100 * B\<bar> \<le> B * (201 / 2 ^ 53)"
    unfolding f_def p_def by (rule percentage_err [OF assms(1)], rule percentage_err [OF assms(2)])
  then have "\<bar>(f - 100 * A) + (p - 100 * B)\<bar> \<le> A * (201 / 2 ^ 53) + B * (201 / 2 ^ 53)"
    by linarith
  moreover have "(f - 100 * A) + (p - 100 * B) = (f + p) - 100 * (A + B)"
    by (simp add: algebra_simps)
  moreover have "A * (201 / 2 ^ 53) + B * (201 / 2 ^ 53) = (A + B) * (201 / 2 ^ 53)"
    by (simp only: distrib_right)
  ultimately have "\<bar>(f + p) - 100 * (A + B)\<bar> \<le> (A + B) * (201 / 2 ^ 53)"
    by simp
  then have s: "\<bar>(f + p) - 100\<bar> \<le> 201 / 2 ^ 53"
    using assms(3) by simp
  have "(201::real) / 2 ^ 53 \<le> 1" by simp
  with s have "\<bar>f + p\<bar> \<le> 101" by linarith
  then have "\<bar>f64_round (f + p) - (f + p)\<bar> \<le> 101 / 2 ^ 53"
    by (rule f64_round_err_le)
  with s have "\<bar>f64_round (f + p) - 100\<bar> \<le> 302 / 2 ^ 53" by linarith
  also have "\<dots> \<le> 1 / 2 ^ 44" by simp
  finally show ?thesis unfolding f_def p_def .
qed

subsection \<open>Free and paid apps\<close>

lemma count_free_paid:
  assumes "\<forall>r\<in>set fv. Type r = Some ''Free'' \<or> Type r = Some ''Paid''"
  shows "length (filter (\<lambda>r. Type r = Some ''Free'') fv)
       + length (filter (\<lambda>r. Type r = Some ''Paid'') fv) = length fv"
  using assms by (induction fv) auto

lemma two_of_three:
  "f64_round (f64_round (f64_round (2 / 3) * 100) + f64_round (f64_round (1 / 3) * 100))
     = 100 - 1 / 2 ^ 46"
  by code_simp

text \<open>
  Claim C7, as the code has it.  For a filtered view that is not empty and whose rows all
  have the type Free or the type Paid, the two percentages are numbers, and their sum
  differs from 100 by no more than \<open>1 / 2 ^ 44\<close>, the effect of rounding the two
  quotients, the two products and the sum to \<^verbatim>\<open>float64\<close>.
\<close>

theorem free_paid_percentages:
  assumes "fv \<noteq> []"
    and "\<forall>r\<in>set fv. Type r = Some ''Free'' \<or> Type r = Some ''Paid''"
  shows "\<exists>s. add_f64 (free_percentage fv) (paid_percentage fv) = Val s \<and>
             \<bar>s - 100\<bar> \<le> 1 / 2 ^ 44"
proof -
  define f where "f = length (filter (\<lambda>r. Type r = Some ''Free'') fv)"
  define p where "p = length (filter (\<lambda>r. Type r = Some ''Paid'') fv)"
  define n where "n = length fv"
  have n: "0 < n" using assms(1) by (simp add: n_def)
  have "f + p = n"
    unfolding f_def p_def n_def by (rule count_free_paid [OF assms(2)])
  then have "real f + real p = real n"
    by (metis of_nat_add)
  then have one: "real f / real n + real p / real n = 1"
    using n by (simp add: field_simps)
  have sum: "add_f64 (free_percentage fv) (paid_percentage fv)
      = Val (f64_round (f64_round (f64_round (real f / real n) * 100)
               + f64_round (f64_round (real p / real n) * 100)))"
    using n by (simp add: free_percentage_def paid_percentage_def true_divide_def
        f_def p_def n_def)
  have "\<bar>f64_round (f64_round (f64_round (real f / real n) * 100)
               + f64_round (f64_round (real p / real n) * 100)) - 100\<bar> \<le> 1 / 2 ^ 44"
    by (rule percentages_sum_err [OF _ _ one]) simp_all
  with sum show ?thesis by blast
qed

theorem free_paid_percentages_witness:
  "example_df = [row_a1, row_a2, row_b1] \<and>
   Type row_a1 = Some ''Free'' \<and> Type row_a2 = Some ''Paid'' \<and> Type row_b1 = Some ''Free'' \<and>
   (\<exists>s. add_f64 (free_percentage example_df) (paid_percentage example_df) = Val s \<and>
        \<bar>s - 100\<bar> \<le> 1 / 2 ^ 44)"
proof -
  have h1: "example_df \<noteq> []"
    by (simp add: example_df_def)
  have h2: "\<forall>r\<in>set example_df. Type r = Some ''Free'' \<or> Type r = Some ''Paid''"
    by (simp add: example_df_def row_a1_def row_a2_def row_b1_def blank_def)
  have types: "Type row_a1 = Some ''Free'' \<and> Type row_a2 = Some ''Paid'' \<and>
      Type row_b1 = Some ''Free''"
    by (simp add: row_a1_def row_a2_def row_b1_def blank_def)
  from types free_paid_percentages [OF h1 h2] show ?thesis
    by (simp add: example_df_def)
qed

text \<open>
  The claim as the spec states it fails in two ways.  On the three example rows, two of
  them free and one paid, the sum of the two percentages is the \<^verbatim>\<open>float64\<close> just below
  100, which Python prints as 99.99999999999999.  A row whose type is missing passes the
  filter when 'All Types' is selected and counts for neither percentage: for a view of one
  such row the sum is 0.
\<close>

theorem free_paid_percentages_counterexample:
  "df_filtered example_df all_controls = example_df \<and>
   add_f64 (free_percentage example_df) (paid_percentage example_df) = Val (100 - 1 / 2 ^ 46) \<and>
   df_filtered [row_a1\<lparr>Type := None\<rparr>] all_controls = [row_a1\<lparr>Type := None\<rparr>] \<and>
   add_f64 (free_percentage [row_a1\<lparr>Type := None\<rparr>]) (paid_percentage [row_a1\<lparr>Type := None\<rparr>])
     = Val 0"
proof -
  have "df_filtered example_df all_controls = example_df"
    by (simp add: example_simps)
  moreover have "add_f64 (free_percentage example_df) (paid_percentage example_df)
      = Val (100 - 1 / 2 ^ 46)"
    by (simp add: free_percentage_def paid_percentage_def true_divide_def example_df_def
        row_a1_def row_a2_def row_b1_def blank_def two_of_three)
  moreover have "df_filtered [row_a1\<lparr>Type := None\<rparr>] all_controls = [row_a1\<lparr>Type := None\<rparr>]"
    by (simp add: example_simps)
  moreover have "add_f64 (free_percentage [row_a1\<lparr>Type := None\<rparr>])
      (paid_percentage [row_a1\<lparr>Type := None\<rparr>]) = Val 0"
    by (simp add: free_percentage_def paid_percentage_def true_divide_def f64_round_def)
  ultimately show ?thesis by simp
qed

section \<open>The example of the spec\<close>

lemma example_mean: "f64_round (pairwise_sum [9 / 2, 4] / 2) = 17 / 4"
  by code_simp

text \<open>
  The dataset of three rows with a minimum rating of 4.0: the view has the two rows
  rated 4.5 and 4.0, their mean rating is 4.25 and is shown as \<^verbatim>\<open>4.25 \<close>, and the
  category summary counts one app in each of the two categories.
\<close>

theorem example_min_rating_four:
  "df_filtered example_df (all_controls\<lparr>min_rating := 4\<rparr>) = [row_a1, row_b1] \<and>
   avg_rating [row_a1, row_b1] = Val (17 / 4) \<and>
   m_value (avg_rating_metric example_df [row_a1, row_b1]) = ''4.25 '' \<and>
   map (\<lambda>s. (category s, app_count s)) (category_summary [row_a1, row_b1])
     = [(''CatA'', 1), (''CatB'', 1)]"
proof -
  have view: "df_filtered example_df (all_controls\<lparr>min_rating := 4\<rparr>) = [row_a1, row_b1]"
    by (simp add: example_simps)
  have mean: "avg_rating [row_a1, row_b1] = Val (17 / 4)"
    by (simp add: avg_rating_def series_mean_def row_a1_def row_b1_def blank_def example_mean)
  have shown: "format_f False 2 (Val (17 / 4)) = ''4.25''"
    by (simp add: format_f_def round_half_even_def zero_pad_def digits10.simps)
  have summary: "map (\<lambda>s. (category s, app_count s)) (category_summary [row_a1, row_b1])
      = [(''CatA'', 1), (''CatB'', 1)]"
    by (simp add: category_summary_def group_keys_def group_rows_def summarize_def
        count_notna_def List.map_filter_def row_a1_def row_b1_def blank_def)
  from view mean shown summary show ?thesis
    by (simp add: avg_rating_metric_def)
qed

end
